theory Spec2Isabelle
  imports Complex_Main
begin

section \<open>Longitudinal vehicle model: the \<open>Vehicle\<close> class of the notebook\<close>

text \<open>
  The notebook \<^verbatim>\<open>Course_1_Module_4/Longitudinal_Vehicle_Model.ipynb\<close> defines a class
  \<^verbatim>\<open>Vehicle\<close> with a constructor, \<^verbatim>\<open>reset\<close> and \<^verbatim>\<open>step\<close>, and drives it from loops in
  later cells. This theory embeds the class and the loops.

  Numbers. The attributes hold Python numbers (\<^verbatim>\<open>int\<close>, \<^verbatim>\<open>float\<close>) or, once a result of
  \<^verbatim>\<open>np.sin\<close> has flowed into them, \<^verbatim>\<open>numpy.float64\<close> scalars. The two kinds compute the
  same sums, products and quotients, and differ in what a zero divisor does: Python's
  \<^verbatim>\<open>/\<close> raises \<^verbatim>\<open>ZeroDivisionError\<close>, numpy's yields \<^verbatim>\<open>inf\<close>, \<^verbatim>\<open>-inf\<close> or \<^verbatim>\<open>nan\<close> (with a
  warning) and goes on. A number is therefore a real value with the kind that holds
  it. The value is an idealised real: rounding and overflow of the 64-bit floats are
  not modelled, and there is one zero, the positive one.
\<close>

datatype num = Py real | Np real

fun val :: "num \<Rightarrow> real" where
  "val (Py r) = r"
| "val (Np r) = r"

fun is_np :: "num \<Rightarrow> bool" where
  "is_np (Py r) = False"
| "is_np (Np r) = True"

text \<open>A numpy operand makes the result of a binary operator a numpy scalar.\<close>

definition promote :: "bool \<Rightarrow> real \<Rightarrow> num" where
  "promote np r = (if np then Np r else Py r)"

definition nadd :: "num \<Rightarrow> num \<Rightarrow> num" where
  "nadd p q = promote (is_np p \<or> is_np q) (val p + val q)"

definition nsub :: "num \<Rightarrow> num \<Rightarrow> num" where
  "nsub p q = promote (is_np p \<or> is_np q) (val p - val q)"

definition nmul :: "num \<Rightarrow> num \<Rightarrow> num" where
  "nmul p q = promote (is_np p \<or> is_np q) (val p * val q)"

text \<open>\<^verbatim>\<open>p ** k\<close> for a literal exponent \<open>k\<close>.\<close>

definition npow :: "num \<Rightarrow> nat \<Rightarrow> num" where
  "npow p k = promote (is_np p) (val p ^ k)"

text \<open>\<^verbatim>\<open>np.sin\<close> returns a numpy scalar whatever it is given.\<close>

definition np_sin :: "num \<Rightarrow> num" where
  "np_sin p = Np (sin (val p))"

datatype error = ZeroDivisionError

text \<open>
  What numpy makes of a division by zero, and the values a numpy expression can
  have: a number, or one of the three.
\<close>

datatype nonfinite = PosInf | NegInf | NaN

datatype xval = Fin num | NonFin nonfinite

fun negate :: "nonfinite \<Rightarrow> nonfinite" where
  "negate PosInf = NegInf"
| "negate NegInf = PosInf"
| "negate NaN = NaN"

text \<open>
  \<^verbatim>\<open>p / q\<close>. With a zero divisor and both operands Python numbers it raises; with a
  zero divisor and a numpy operand it is \<^verbatim>\<open>inf\<close>, \<^verbatim>\<open>-inf\<close> or \<^verbatim>\<open>nan\<close> as \<open>p\<close> is positive,
  negative or zero.
\<close>

datatype quotient = Quot xval | DivRaise error

definition truediv :: "num \<Rightarrow> num \<Rightarrow> quotient" where
  "truediv p q =
     (if val q = 0 then
        (if is_np p \<or> is_np q
         then Quot (NonFin (if val p > 0 then PosInf else if val p < 0 then NegInf else NaN))
         else DivRaise ZeroDivisionError)
      else Quot (Fin (promote (is_np p \<or> is_np q) (val p / val q))))"

text \<open>
  The operators of \<open>step\<close> that can meet \<^verbatim>\<open>inf\<close> or \<^verbatim>\<open>nan\<close>. \<^verbatim>\<open>p * s\<close>: a zero factor makes
  \<^verbatim>\<open>nan\<close> of an infinity, a negative one changes its sign. \<^verbatim>\<open>s >= q\<close>: true of \<^verbatim>\<open>inf\<close>,
  false of \<^verbatim>\<open>-inf\<close> and of \<^verbatim>\<open>nan\<close>. \<^verbatim>\<open>s - q\<close> and \<^verbatim>\<open>s / q\<close> for a number \<open>q\<close>: an infinity
  stays one, with the sign changed by a negative divisor, and \<^verbatim>\<open>nan\<close> stays \<^verbatim>\<open>nan\<close>;
  neither raises, the left operand being a numpy scalar.
\<close>

fun xmul :: "num \<Rightarrow> xval \<Rightarrow> xval" where
  "xmul p (Fin q) = Fin (nmul p q)"
| "xmul p (NonFin n) =
     NonFin (if val p = 0 then NaN else if val p > 0 then n else negate n)"

fun xge :: "xval \<Rightarrow> num \<Rightarrow> bool" where
  "xge (Fin p) q = (val p \<ge> val q)"
| "xge (NonFin n) q = (n = PosInf)"

fun xsub :: "xval \<Rightarrow> num \<Rightarrow> xval" where
  "xsub (Fin p) q = Fin (nsub p q)"
| "xsub (NonFin n) q = NonFin n"

fun xdiv :: "xval \<Rightarrow> num \<Rightarrow> quotient" where
  "xdiv (Fin p) q = truediv p q"
| "xdiv (NonFin n) q = Quot (NonFin (if val q \<ge> 0 then n else negate n))"

subsection \<open>The object\<close>

record Vehicle =
  a_0 :: num
  a_1 :: num
  a_2 :: num
  GR :: num
  r_e :: num
  J_e :: num
  m :: num
  g :: num
  c_a :: num
  c_r1 :: num
  c :: num
  F_max :: num
  x :: num
  v :: num
  a :: num
  w_e :: num
  w_e_dot :: num
  sample_time :: num

text \<open>\<^verbatim>\<open>Vehicle.__init__\<close>: the object as the constructor leaves it.\<close>

definition Vehicle_init :: Vehicle where
  "Vehicle_init =
     \<lparr> a_0 = Py 400, a_1 = Py 0.1, a_2 = Py (- 0.0002),
       GR = Py 0.35, r_e = Py 0.3, J_e = Py 10, m = Py 2000, g = Py 9.81,
       c_a = Py 1.36, c_r1 = Py 0.01,
       c = Py 10000, F_max = Py 10000,
       x = Py 0, v = Py 5, a = Py 0, w_e = Py 100, w_e_dot = Py 0,
       sample_time = Py 0.01 \<rparr>"


subsection \<open>One step\<close>

text \<open>
  What a call of \<^verbatim>\<open>step\<close> can end in. It returns, with the object as mutated
  (\<open>Done\<close>). It raises, with the object as the assignments before the exception left it
  (\<open>Raised\<close>). Or it returns having stored \<^verbatim>\<open>inf\<close>, \<^verbatim>\<open>-inf\<close> or \<^verbatim>\<open>nan\<close> in \<^verbatim>\<open>a\<close> or in
  \<^verbatim>\<open>w_e_dot\<close> (\<open>NonFinite\<close>): the record then gives the other attributes, and the two
  values are what \<^verbatim>\<open>a\<close> and \<^verbatim>\<open>w_e_dot\<close> hold.
\<close>

datatype outcome = Done Vehicle | Raised error Vehicle | NonFinite Vehicle xval xval

text \<open>
  The assignment \<^verbatim>\<open>self.a = ...\<close>: the record takes a number; \<^verbatim>\<open>inf\<close>, \<^verbatim>\<open>-inf\<close> and \<^verbatim>\<open>nan\<close> it
  cannot hold, and the value is carried to the return beside it.
\<close>

fun assign_a :: "Vehicle \<Rightarrow> xval \<Rightarrow> Vehicle" where
  "assign_a self (Fin p) = self\<lparr>a := p\<rparr>"
| "assign_a self (NonFin n) = self"

text \<open>
  The assignment \<^verbatim>\<open>self.w_e_dot = ...\<close> and the return: \<open>qa\<close> is what \<^verbatim>\<open>self.a\<close> was
  assigned and \<open>qw\<close> what \<^verbatim>\<open>self.w_e_dot\<close> is.
\<close>

fun returned :: "Vehicle \<Rightarrow> xval \<Rightarrow> xval \<Rightarrow> outcome" where
  "returned self (Fin p) (Fin q) = Done (self\<lparr>w_e_dot := q\<rparr>)"
| "returned self qa qw = NonFinite self qa qw"

text \<open>
  \<^verbatim>\<open>Vehicle.step(throttle, alpha)\<close>, statement by statement. Each \<open>self\<close> bound by a
  \<open>let\<close> is the object after one more assignment; the reads of \<^verbatim>\<open>self.v\<close> for the slip
  ratio, the rolling resistance and the drag come before the assignment to
  \<^verbatim>\<open>self.v\<close>, and the read of \<^verbatim>\<open>self.w_e\<close> for the engine torque before the assignment
  to \<^verbatim>\<open>self.w_e\<close>, as in the source. No statement of \<open>step\<close> reads \<^verbatim>\<open>self.a\<close> after the
  assignment to it.
\<close>

definition step :: "Vehicle \<Rightarrow> num \<Rightarrow> num \<Rightarrow> outcome" where
  "step self throttle alpha =
     (let self = self\<lparr>x := nadd (x self) (nmul (v self) (sample_time self))\<rparr> in
      case truediv (nsub (nmul (nmul (GR self) (w_e self)) (r_e self)) (v self)) (v self) of
        DivRaise e \<Rightarrow> Raised e self
      | Quot s \<Rightarrow>
          (let F_x = xmul (c self) s;
               F_x = (if xge F_x (F_max self) then Fin (F_max self) else F_x);
               F_g = nmul (nmul (m self) (g self)) (np_sin alpha);
               R_x = nmul (c_r1 self) (v self);
               F_aero = nmul (c_a self) (npow (v self) 2);
               F_load = nadd (nadd F_aero R_x) F_g;
               self = self\<lparr>v := nadd (v self) (nmul (a self) (sample_time self))\<rparr>
           in case xdiv (xsub F_x F_load) (m self) of
                DivRaise e \<Rightarrow> Raised e self
              | Quot qa \<Rightarrow>
                  (let self = assign_a self qa;
                       T_e = nmul throttle
                               (nadd (nadd (a_0 self) (nmul (a_1 self) (w_e self)))
                                     (nmul (a_2 self) (npow (w_e self) 2)));
                       self = self\<lparr>w_e := nadd (w_e self) (nmul (w_e_dot self) (sample_time self))\<rparr>
                   in case truediv (nsub T_e (nmul (nmul (GR self) (r_e self)) F_load)) (J_e self) of
                        DivRaise e \<Rightarrow> Raised e self
                      | Quot qw \<Rightarrow> returned self qa qw)))"

subsection \<open>Repeated stepping\<close>

text \<open>
  The driving loops of the notebook call \<^verbatim>\<open>model.step(throttle, alpha)\<close> once per time
  index. \<open>run\<close> is such a loop over the list of the inputs of its calls: an exception
  ends it, with the object as the raising call left it. Once \<^verbatim>\<open>inf\<close> or \<^verbatim>\<open>nan\<close> is in the
  object the loop goes on in the code; the record cannot hold them and \<open>run\<close> stops
  there.
\<close>

fun run :: "Vehicle \<Rightarrow> (num \<times> num) list \<Rightarrow> outcome" where
  "run self [] = Done self"
| "run self ((throttle, alpha) # inputs) =
     (case step self throttle alpha of
        Done self' \<Rightarrow> run self' inputs
      | Raised e self' \<Rightarrow> Raised e self'
      | NonFinite self' qa qw \<Rightarrow> NonFinite self' qa qw)"

text \<open>The velocity \<^verbatim>\<open>model.v\<close> read after a loop that has come to its end.\<close>

fun v_of :: "outcome \<Rightarrow> real option" where
  "v_of (Done self) = Some (val (v self))"
| "v_of (Raised e self) = None"
| "v_of (NonFinite self qa qw) = None"

subsection \<open>The throttle profile of the ramp scenario\<close>

text \<open>
  \<^verbatim>\<open>np.arange(start, stop, delta)\<close>: the values \<open>start + i * delta\<close>, of which there are
  \<open>\<lceil>(stop - start) / delta\<rceil>\<close>.
\<close>

definition arange :: "real \<Rightarrow> real \<Rightarrow> real \<Rightarrow> real list" where
  "arange start stop delta =
     map (\<lambda>i. start + real i * delta) [0..<nat \<lceil>(stop - start) / delta\<rceil>]"

text \<open>\<^verbatim>\<open>t_data = np.arange(0,time_end,sample_time)\<close> with \<^verbatim>\<open>time_end = 20\<close>, \<^verbatim>\<open>sample_time = 0.01\<close>.\<close>

definition t_data :: "real list" where
  "t_data = arange 0 20 0.01"

text \<open>
  The \<^verbatim>\<open>if\<close>/\<^verbatim>\<open>elif\<close> chain on \<^verbatim>\<open>t_data[i]\<close> in the loop of the ramp scenario. The
  chain has no \<^verbatim>\<open>else\<close>: where no branch is taken the variable \<^verbatim>\<open>throttle\<close> keeps the
  value it had.
\<close>

definition throttle_at :: "real \<Rightarrow> real \<Rightarrow> real" where
  "throttle_at throttle t =
     (if t \<le> 5 then 0.2 + ((0.5 - 0.2) / 5) * t
      else if t > 5 \<and> t \<le> 15 then 0.5
      else if t > 15 then 0.5 + ((0 - 0.5) / 5) * (t - 15)
      else throttle)"

text \<open>
  The loop, as far as \<^verbatim>\<open>throttle_data\<close> goes: \<^verbatim>\<open>throttle_data[i]=throttle\<close> at each
  index. The throttle branch reads \<^verbatim>\<open>t_data[i]\<close> only, not the model.
\<close>

fun throttle_loop :: "real \<Rightarrow> real list \<Rightarrow> real list" where
  "throttle_loop throttle [] = []"
| "throttle_loop throttle (t # ts) =
     (let throttle = throttle_at throttle t in throttle # throttle_loop throttle ts)"

text \<open>\<open>throttle0\<close> is what the variable \<^verbatim>\<open>throttle\<close> holds when the loop starts.\<close>

definition throttle_data :: "real \<Rightarrow> real list" where
  "throttle_data throttle0 = throttle_loop throttle0 t_data"

subsection \<open>Agreement in value\<close>





section \<open>Arithmetic of the numbers\<close>

lemma val_promote [simp]: "val (promote np r) = r"
  by (simp add: promote_def)

lemma is_np_promote [simp]: "is_np (promote np r) = np"
  by (simp add: promote_def)

lemma val_nadd [simp]: "val (nadd p q) = val p + val q"
  by (simp add: nadd_def)

lemma val_nsub [simp]: "val (nsub p q) = val p - val q"
  by (simp add: nsub_def)

lemma val_nmul [simp]: "val (nmul p q) = val p * val q"
  by (simp add: nmul_def)

lemma val_npow [simp]: "val (npow p k) = val p ^ k"
  by (simp add: npow_def)

lemma val_np_sin [simp]: "val (np_sin p) = sin (val p)"
  by (simp add: np_sin_def)

lemma is_np_nadd [simp]: "is_np (nadd p q) = (is_np p \<or> is_np q)"
  by (simp add: nadd_def)

lemma is_np_nsub [simp]: "is_np (nsub p q) = (is_np p \<or> is_np q)"
  by (simp add: nsub_def)

lemma is_np_nmul [simp]: "is_np (nmul p q) = (is_np p \<or> is_np q)"
  by (simp add: nmul_def)

lemma is_np_npow [simp]: "is_np (npow p k) = is_np p"
  by (simp add: npow_def)

lemma is_np_np_sin [simp]: "is_np (np_sin p)"
  by (simp add: np_sin_def)

lemma truediv_nonzero:
  "val q \<noteq> 0 \<Longrightarrow> truediv p q = Quot (Fin (promote (is_np p \<or> is_np q) (val p / val q)))"
  by (simp add: truediv_def)

lemma truediv_zero_python:
  "val q = 0 \<Longrightarrow> \<not> is_np p \<Longrightarrow> \<not> is_np q \<Longrightarrow> truediv p q = DivRaise ZeroDivisionError"
  by (simp add: truediv_def)

lemma truediv_zero_numpy:
  "val q = 0 \<Longrightarrow> is_np p \<or> is_np q \<Longrightarrow>
   truediv p q = Quot (NonFin (if val p > 0 then PosInf else if val p < 0 then NegInf else NaN))"
  by (simp add: truediv_def)

section \<open>The constructed object\<close>

lemma Vehicle_init_simps [simp]:
  "a_0 Vehicle_init = Py 400" "a_1 Vehicle_init = Py 0.1" "a_2 Vehicle_init = Py (- 0.0002)"
  "GR Vehicle_init = Py 0.35" "r_e Vehicle_init = Py 0.3" "J_e Vehicle_init = Py 10"
  "m Vehicle_init = Py 2000" "g Vehicle_init = Py 9.81" "c_a Vehicle_init = Py 1.36"
  "c_r1 Vehicle_init = Py 0.01" "c Vehicle_init = Py 10000" "F_max Vehicle_init = Py 10000"
  "x Vehicle_init = Py 0" "v Vehicle_init = Py 5" "a Vehicle_init = Py 0"
  "w_e Vehicle_init = Py 100" "w_e_dot Vehicle_init = Py 0" "sample_time Vehicle_init = Py 0.01"
  by (simp_all add: Vehicle_init_def)

section \<open>Assignment and return\<close>

lemma assign_a_simps [simp]:
  "a_0 (assign_a self qa) = a_0 self" "a_1 (assign_a self qa) = a_1 self" "a_2 (assign_a self qa) = a_2 self"
  "GR (assign_a self qa) = GR self" "r_e (assign_a self qa) = r_e self" "J_e (assign_a self qa) = J_e self"
  "m (assign_a self qa) = m self" "g (assign_a self qa) = g self" "c_a (assign_a self qa) = c_a self"
  "c_r1 (assign_a self qa) = c_r1 self" "c (assign_a self qa) = c self" "F_max (assign_a self qa) = F_max self"
  "x (assign_a self qa) = x self" "v (assign_a self qa) = v self"
  "w_e (assign_a self qa) = w_e self" "w_e_dot (assign_a self qa) = w_e_dot self"
  "sample_time (assign_a self qa) = sample_time self"
  by (cases qa; simp)+

lemma returned_Done:
  "returned self qa qw = Done self' \<Longrightarrow> \<exists>p q. qa = Fin p \<and> qw = Fin q \<and> self' = self\<lparr>w_e_dot := q\<rparr>"
  by (cases qa; cases qw) auto

lemma returned_not_Raised: "returned self qa qw \<noteq> Raised e self'"
  by (cases qa; cases qw) auto

section \<open>The step away from zero divisors\<close>

text \<open>
  With the three divisors nonzero \<open>step\<close> returns, and this lemma writes out the
  object it returns; the statements below about a returning step are read off it.
  The load holds the numpy scalar of \<^verbatim>\<open>np.sin\<close>, so the new \<open>a\<close> and \<open>w_e_dot\<close> are
  numpy scalars whatever the object held.
\<close>

lemma step_Done:
  assumes "val (v self) \<noteq> 0" and "val (m self) \<noteq> 0" and "val (J_e self) \<noteq> 0"
  shows "step self throttle alpha =
     Done (self
       \<lparr> x := nadd (x self) (nmul (v self) (sample_time self)),
         v := nadd (v self) (nmul (a self) (sample_time self)),
         a := Np (((if val (c self) * ((val (GR self) * val (w_e self) * val (r_e self) - val (v self)) / val (v self))
                         \<ge> val (F_max self)
                    then val (F_max self)
                    else val (c self) * ((val (GR self) * val (w_e self) * val (r_e self) - val (v self)) / val (v self)))
                   - (val (c_a self) * (val (v self))\<^sup>2 + val (c_r1 self) * val (v self)
                      + val (m self) * val (g self) * sin (val alpha)))
                  / val (m self)),
         w_e := nadd (w_e self) (nmul (w_e_dot self) (sample_time self)),
         w_e_dot := Np ((val throttle * (val (a_0 self) + val (a_1 self) * val (w_e self)
                                         + val (a_2 self) * (val (w_e self))\<^sup>2)
                         - val (GR self) * val (r_e self)
                           * (val (c_a self) * (val (v self))\<^sup>2 + val (c_r1 self) * val (v self)
                              + val (m self) * val (g self) * sin (val alpha)))
                        / val (J_e self)) \<rparr>)"
  using assms by (simp add: step_def Let_def truediv_nonzero promote_def)

section \<open>What a step and a run leave alone\<close>



section \<open>The update rule\<close>

text \<open>
  C1. For every object with \<open>v \<noteq> 0\<close> (and the divisors \<open>m\<close> and \<open>J_e\<close> nonzero, as the
  constructor's 2000 and 10 are) and all inputs, \<open>step\<close> returns, and the object it
  returns has \<open>x_new = x_old + v_old * dt\<close>, \<open>v_new = v_old + a_old * dt\<close>,
  \<open>w_e_new = w_e_old + w_e_dot_old * dt\<close>, \<open>a_new = (F_x - F_load) / m\<close> with \<open>F_x\<close>
  the tire force \<open>c * s\<close> clamped from above at \<open>F_max\<close>, \<open>s\<close> the slip ratio and
  \<open>F_load\<close> the load of the state before the call, and
  \<open>w_e_dot_new = (throttle * (a_0 + a_1 * w_e_old + a_2 * w_e_old\<^sup>2) - GR * r_e * F_load) / J_e\<close>:
  everything on the right is a value of before the call.
\<close>

theorem step_lagged_euler:
  assumes "val (v self) \<noteq> 0" and "val (m self) \<noteq> 0" and "val (J_e self) \<noteq> 0"
  shows "\<exists>self'. step self throttle alpha = Done self' \<and>
     (let s = (val (GR self) * val (w_e self) * val (r_e self) - val (v self)) / val (v self);
          F_x = (if val (c self) * s \<ge> val (F_max self) then val (F_max self) else val (c self) * s);
          F_load = val (c_a self) * (val (v self))\<^sup>2 + val (c_r1 self) * val (v self)
                   + val (m self) * val (g self) * sin (val alpha)
      in val (x self') = val (x self) + val (v self) * val (sample_time self) \<and>
         val (v self') = val (v self) + val (a self) * val (sample_time self) \<and>
         val (w_e self') = val (w_e self) + val (w_e_dot self) * val (sample_time self) \<and>
         val (a self') = (F_x - F_load) / val (m self) \<and>
         val (w_e_dot self') =
           (val throttle * (val (a_0 self) + val (a_1 self) * val (w_e self) + val (a_2 self) * (val (w_e self))\<^sup>2)
            - val (GR self) * val (r_e self) * F_load) / val (J_e self))"
  by (simp add: step_Done [OF assms] Let_def)

text \<open>The first call on the constructed object, with the throttle of the first scenario.\<close>

theorem step_lagged_euler_witness:
  "val (v Vehicle_init) \<noteq> 0 \<and> val (m Vehicle_init) \<noteq> 0 \<and> val (J_e Vehicle_init) \<noteq> 0 \<and>
   (\<exists>self'. step Vehicle_init (Py 0.2) (Py 0) = Done self' \<and>
      val (x self') = 0.05 \<and> val (v self') = 5 \<and> val (w_e self') = 100 \<and>
      val (a self') = 4.982975 \<and> val (w_e_dot self') = 7.802475)"
  using step_lagged_euler [of Vehicle_init "Py 0.2" "Py 0"]
  by (simp add: Let_def mult.commute)

section \<open>The tire force\<close>

text \<open>
  C2. In every call with \<open>v \<noteq> 0\<close> (and \<open>m\<close>, \<open>J_e\<close> nonzero), the force that the
  new acceleration is computed from, \<open>m * a_new + F_load\<close>, is \<open>F_max\<close> exactly when
  the raw tire force \<open>c * s\<close> of the state before the call is at least \<open>F_max\<close>, and
  is \<open>c * s\<close> itself when \<open>c * s < F_max\<close>, however negative: there is no clamp from
  below.
\<close>

theorem tire_force_clamp:
  assumes "val (v self) \<noteq> 0" and "val (m self) \<noteq> 0" and "val (J_e self) \<noteq> 0"
  shows "\<exists>self'. step self throttle alpha = Done self' \<and>
     (let s = (val (GR self) * val (w_e self) * val (r_e self) - val (v self)) / val (v self);
          F_load = val (c_a self) * (val (v self))\<^sup>2 + val (c_r1 self) * val (v self)
                   + val (m self) * val (g self) * sin (val alpha)
      in (val (c self) * s \<ge> val (F_max self) \<longrightarrow>
            val (m self) * val (a self') + F_load = val (F_max self)) \<and>
         (val (c self) * s < val (F_max self) \<longrightarrow>
            val (m self) * val (a self') + F_load = val (c self) * s))"
  using assms by (simp add: step_Done [OF assms] Let_def)

text \<open>
  Both branches: the constructed object has \<open>c * s = 11000\<close>, clamped to 10000; with
  the engine turning backwards at \<open>w_e = -1000\<close> the raw force is \<open>-220000\<close>, far
  below \<open>-F_max\<close>, and it is used as it is. The load is \<open>34.05\<close> in both.
\<close>

theorem tire_force_clamp_witness:
  "(\<exists>self'. step Vehicle_init (Py 0.2) (Py 0) = Done self' \<and>
      val (c Vehicle_init) * ((val (GR Vehicle_init) * val (w_e Vehicle_init) * val (r_e Vehicle_init)
         - val (v Vehicle_init)) / val (v Vehicle_init)) = 11000 \<and>
      val (m Vehicle_init) * val (a self') + 34.05 = 10000) \<and>
   (\<exists>self'. step (Vehicle_init\<lparr>w_e := Py (- 1000)\<rparr>) (Py 0.2) (Py 0) = Done self' \<and>
      val (c Vehicle_init) * ((val (GR Vehicle_init) * (- 1000) * val (r_e Vehicle_init)
         - val (v Vehicle_init)) / val (v Vehicle_init)) = - 220000 \<and>
      val (m Vehicle_init) * val (a self') + 34.05 = - 220000)"
  using tire_force_clamp [of Vehicle_init "Py 0.2" "Py 0"]
        tire_force_clamp [of "Vehicle_init\<lparr>w_e := Py (- 1000)\<rparr>" "Py 0.2" "Py 0"]
  by (simp add: Let_def)

section \<open>The step at zero velocity\<close>

text \<open>
  The kinds of the numbers the integrator itself produces. A call that returns has
  stored a numpy scalar in \<^verbatim>\<open>a\<close>, the load holding the result of \<^verbatim>\<open>np.sin\<close>; so from the
  constructed object on, the velocity is the Python 5 or a numpy scalar. A zero
  velocity reached by stepping is a numpy zero, and no call of a run raises.
\<close>

lemma step_Done_kinds:
  assumes "step self throttle alpha = Done self'"
  shows "v self' = nadd (v self) (nmul (a self) (sample_time self)) \<and> is_np (a self')"
  using assms unfolding step_def Let_def
  by (simp split: quotient.splits cong: if_cong)
     (auto dest!: returned_Done simp: truediv_def split: if_splits xval.splits)

lemma step_Raised:
  "step self throttle alpha = Raised e self' \<longleftrightarrow>
     val (v self) = 0 \<and> \<not> is_np (GR self) \<and> \<not> is_np (w_e self) \<and> \<not> is_np (r_e self) \<and> \<not> is_np (v self)
     \<and> e = ZeroDivisionError \<and> self' = self\<lparr>x := nadd (x self) (nmul (v self) (sample_time self))\<rparr>"
proof (cases "truediv (nsub (nmul (nmul (GR self) (w_e self)) (r_e self)) (v self)) (v self)")
  case (DivRaise e1)
  then show ?thesis
    by (auto simp: step_def Let_def truediv_def split: if_splits)
next
  case (Quot s)
  then have 1: "val (v self) \<noteq> 0 \<or> is_np (GR self) \<or> is_np (w_e self) \<or> is_np (r_e self) \<or> is_np (v self)"
    by (auto simp: truediv_def split: if_splits)
  have "step self throttle alpha \<noteq> Raised e self'"
    using Quot unfolding step_def Let_def
    by (simp split: quotient.splits cong: if_cong)
       (auto simp: returned_not_Raised truediv_def split: if_splits xval.splits)
  with 1 show ?thesis by auto
qed

lemma run_kinds:
  "run self inputs = Done self' \<Longrightarrow>
   is_np (v self) \<or> val (v self) = 5 \<Longrightarrow> is_np (a self) \<or> val (a self) = 0 \<Longrightarrow>
   is_np (v self') \<or> val (v self') = 5"
proof (induction inputs arbitrary: self)
  case Nil
  then show ?case by simp
next
  case (Cons i inputs)
  obtain throttle alpha where i: "i = (throttle, alpha)" by (cases i)
  from Cons.prems(1) i obtain s1 where s1: "step self throttle alpha = Done s1"
    and r: "run s1 inputs = Done self'"
    by (auto split: outcome.splits)
  from step_Done_kinds [OF s1]
  have k: "v s1 = nadd (v self) (nmul (a self) (sample_time self))" and na: "is_np (a s1)"
    by simp_all
  from Cons.prems(2,3) have "is_np (v s1) \<or> val (v s1) = 5"
    by (auto simp: k)
  from Cons.IH [OF r this] na show ?case by simp
qed

lemma zero_velocity_after_run_is_numpy:
  assumes "run Vehicle_init inputs = Done self" and "val (v self) = 0"
  shows "is_np (v self)"
  using run_kinds [OF assms(1)] assms(2) by simp

lemma run_raises_never:
  "is_np (v self) \<or> val (v self) = 5 \<Longrightarrow> is_np (a self) \<or> val (a self) = 0 \<Longrightarrow>
   run self inputs \<noteq> Raised e self'"
proof (induction inputs arbitrary: self)
  case Nil
  show ?case by simp
next
  case (Cons i inputs)
  obtain throttle alpha where i: "i = (throttle, alpha)" by (cases i)
  show ?case
  proof (cases "step self throttle alpha")
    case (Done s1)
    from step_Done_kinds [OF Done]
    have k: "v s1 = nadd (v self) (nmul (a self) (sample_time self))" and na: "is_np (a s1)"
      by simp_all
    from Cons.prems have "is_np (v s1) \<or> val (v s1) = 5"
      by (auto simp: k)
    from Cons.IH [OF this] na have "run s1 inputs \<noteq> Raised e self'" by simp
    with Done i show ?thesis by simp
  next
    case (Raised e1 s1)
    then have "val (v self) = 0 \<and> \<not> is_np (v self)" by (simp add: step_Raised)
    with Cons.prems(1) show ?thesis by simp
  next
    case (NonFinite s1 qa qw)
    with i show ?thesis by simp
  qed
qed

lemma run_from_constructor_raises_never: "run Vehicle_init inputs \<noteq> Raised e self'"
  by (rule run_raises_never) simp_all






section \<open>Stepping with zero inputs\<close>

text \<open>
  C4, as the code has it. The claim is that from the constructed object, stepping
  with \<^verbatim>\<open>throttle = 0\<close> and \<^verbatim>\<open>alpha = 0\<close>, the velocity never increases from one step
  to the next. After one call the velocity is 5 and after two it is 5.04982975.
\<close>

theorem zero_input_velocity_increases:
  "v_of (run Vehicle_init (replicate 1 (Py 0, Py 0))) = Some 5 \<and>
   v_of (run Vehicle_init (replicate 2 (Py 0, Py 0))) = Some 5.04982975 \<and>
   (5::real) < 5.04982975"
  by (simp add: eval_nat_numeral step_Done)

text \<open>
  C4, amended. From the constructed object, stepping with \<^verbatim>\<open>throttle = 0\<close> and
  \<^verbatim>\<open>alpha = 0\<close>, the velocity never decreases over the first five steps: the first
  call leaves it at 5 (the acceleration held from construction is 0) and each of the
  next four raises it. The engine speed of 100 rad/s puts the wheel at 10.5 m/s
  against the vehicle's 5 m/s, so the tire force is at \<open>F_max\<close> and exceeds the load.
\<close>

theorem zero_input_velocity_first_steps:
  "v_of (run Vehicle_init (replicate 0 (Py 0, Py 0))) = Some 5 \<and>
   v_of (run Vehicle_init (replicate 1 (Py 0, Py 0))) = Some 5 \<and>
   v_of (run Vehicle_init (replicate 2 (Py 0, Py 0))) = Some 5.04982975 \<and>
   v_of (run Vehicle_init (replicate 3 (Py 0, Py 0))) = Some 5.0996595 \<and>
   v_of (run Vehicle_init (replicate 4 (Py 0, Py 0))) = Some 5.149485842201085401575 \<and>
   v_of (run Vehicle_init (replicate 5 (Py 0, Py 0))) = Some 5.199308742834402007875 \<and>
   (5::real) < 5.04982975 \<and> (5.04982975::real) < 5.0996595 \<and>
   (5.0996595::real) < 5.149485842201085401575 \<and>
   (5.149485842201085401575::real) < 5.199308742834402007875"
  by (simp add: eval_nat_numeral step_Done)

section \<open>Reset\<close>



section \<open>The frame of a step\<close>



section \<open>Determinism\<close>










section \<open>The throttle sampled at one second\<close>

lemma throttle_at_unused: "throttle_at p t = throttle_at q t"
  by (simp add: throttle_at_def)

lemma throttle_loop_map: "throttle_loop p ts = map (throttle_at p) ts"
proof (induction ts arbitrary: p)
  case Nil
  show ?case by simp
next
  case (Cons t ts)
  have "throttle_loop (throttle_at p t) ts = map (throttle_at (throttle_at p t)) ts"
    by (rule Cons.IH)
  also have "\<dots> = map (throttle_at p) ts"
    by (rule map_cong [OF refl]) (rule throttle_at_unused)
  finally show ?case by (simp add: Let_def)
qed

lemma length_t_data: "length t_data = 2000"
  by (simp add: t_data_def arange_def)

lemma t_data_nth: "i < 2000 \<Longrightarrow> t_data ! i = real i * 0.01"
  by (simp add: t_data_def arange_def)

text \<open>
  C8. In the ramp scenario index 100 of \<^verbatim>\<open>throttle_data\<close> exists, its time stamp is
  \<open>t = 1\<close>, and the throttle recorded there is 0.26, which is \<open>0.2 + (0.3 / 5) * 1.0\<close>.
\<close>

theorem throttle_sample_at_one_second:
  "100 < length (throttle_data throttle0) \<and> t_data ! 100 = 1 \<and>
   throttle_data throttle0 ! 100 = 0.26 \<and> (0.26::real) = 0.2 + (0.3 / 5) * 1.0"
  by (simp add: throttle_data_def throttle_loop_map length_t_data t_data_nth throttle_at_def)

section \<open>What the inputs of a call reach\<close>

text \<open>
  C9. For every object with \<open>v \<noteq> 0\<close> (and \<open>m\<close>, \<open>J_e\<close> nonzero) and any two pairs of
  inputs, both calls return, with the same \<open>x\<close>, \<open>v\<close> and \<open>w_e\<close>: the two objects
  differ in \<open>a\<close> and \<open>w_e_dot\<close> at most, and not in \<open>a\<close> when the incline is the same.
\<close>

theorem step_state_independent_of_inputs:
  assumes "val (v self) \<noteq> 0" and "val (m self) \<noteq> 0" and "val (J_e self) \<noteq> 0"
  shows "\<exists>s1 s2. step self throttle1 alpha1 = Done s1 \<and> step self throttle2 alpha2 = Done s2 \<and>
           x s1 = x s2 \<and> v s1 = v s2 \<and> w_e s1 = w_e s2 \<and>
           s2 = s1\<lparr>a := a s2, w_e_dot := w_e_dot s2\<rparr> \<and>
           (alpha1 = alpha2 \<longrightarrow> a s1 = a s2)"
  by (simp add: step_Done [OF assms])

text \<open>Different throttle and incline; then different throttle and the same incline.\<close>

theorem step_state_independent_of_inputs_witness:
  "(\<exists>s1 s2. step Vehicle_init (Py 0.2) (Py 0) = Done s1 \<and> step Vehicle_init (Py 0.9) (Py 0.1) = Done s2 \<and>
      x s1 = x s2 \<and> v s1 = v s2 \<and> w_e s1 = w_e s2) \<and>
   (\<exists>s1 s2. step Vehicle_init (Py 0.2) (Py 0.1) = Done s1 \<and> step Vehicle_init (Py 0.9) (Py 0.1) = Done s2 \<and>
      x s1 = x s2 \<and> v s1 = v s2 \<and> w_e s1 = w_e s2 \<and> a s1 = a s2)"
  using step_state_independent_of_inputs [of Vehicle_init "Py 0.2" "Py 0" "Py 0.9" "Py 0.1"]
        step_state_independent_of_inputs [of Vehicle_init "Py 0.2" "Py 0.1" "Py 0.9" "Py 0.1"]
  by simp blast

end
